theory Spec2Isabelle
  imports Complex_Main "HOL-Library.Sublist"
begin

section \<open>VendorGrid: vendor deduplication, search and change tracking\<close>

text \<open>
  A shallow embedding of the business layer of VendorGrid:
  \<^item> \<^verbatim>\<open>models/vendor.py\<close> and \<^verbatim>\<open>schemas/vendor.py\<close>: the data model;
  \<^item> \<^verbatim>\<open>repositories/vendor_repository.py\<close>: the repository, over the session it is built
    on;
  \<^item> \<^verbatim>\<open>services/vendor_service.py\<close>: the vendor service;
  \<^item> \<^verbatim>\<open>services/integration_service.py\<close>: the change feed and the webhook notifier.

  Python's unbounded integers are \<open>int\<close>. A text is a \<open>string\<close>, the bytes of its UTF-8
  encoding. A raised exception is the \<open>Inl\<close> of a sum; a method that writes returns the
  new state beside its result. The storage engine is the default one, SQLite. The
  database's clock (\<^verbatim>\<open>func.now()\<close>) is an argument.
\<close>

subsection \<open>Exceptions\<close>

datatype error =
    HTTPException int string      \<comment> \<open>status code and detail\<close>
  | IntegrityError                \<comment> \<open>a constraint of the table is violated\<close>
  | MultipleResultsFound          \<comment> \<open>\<^verbatim>\<open>scalar_one_or_none\<close> on several rows\<close>
  | PendingRollbackError          \<comment> \<open>a statement on a session whose flush has failed\<close>
  | OverflowError                 \<comment> \<open>an integer the engine cannot bind\<close>
  | TypeError                     \<comment> \<open>an operation on values of the wrong kind\<close>
  | ValidationError "string list" \<comment> \<open>pydantic rejects the named fields\<close>
  | ZeroDivisionError

subsection \<open>Text\<close>

text \<open>
  What Python and its libraries do with text outside ASCII, and which addresses the
  \<^verbatim>\<open>EmailStr\<close> type accepts, is decided by tables and code that are not part of the
  repository. They are taken as given: \<open>unicode_lower\<close> is \<^verbatim>\<open>str.lower\<close> and
  \<open>unicode_strip\<close> is \<^verbatim>\<open>str.strip\<close> on a text that is not pure ASCII, and
  \<open>validate_email\<close> gives the address as stored, or None when it is rejected.
\<close>

record library =
  unicode_lower :: "string \<Rightarrow> string"
  unicode_strip :: "string \<Rightarrow> string"
  validate_email :: "string \<Rightarrow> string option"

text \<open>A byte below 128 is an ASCII character; a byte \<^verbatim>\<open>10xxxxxx\<close> continues a character.\<close>

definition ascii :: "string \<Rightarrow> bool" where
  "ascii s = list_all (\<lambda>c. \<not> digit7 c) s"

definition continuation :: "char \<Rightarrow> bool" where
  "continuation c = (digit7 c \<and> \<not> digit6 c)"

text \<open>
  SQL \<^verbatim>\<open>lower()\<close>: SQLite lowers the letters A to Z and leaves every other byte alone.
\<close>

definition lower_char :: "char \<Rightarrow> char" where
  "lower_char c =
     (case map_of (zip ''ABCDEFGHIJKLMNOPQRSTUVWXYZ'' ''abcdefghijklmnopqrstuvwxyz'') c of
        Some d \<Rightarrow> d
      | None \<Rightarrow> c)"

definition lower :: "string \<Rightarrow> string" where
  "lower s = map lower_char s"

text \<open>\<^verbatim>\<open>str.lower\<close>: on ASCII text the same letters are lowered.\<close>

definition str_lower :: "library \<Rightarrow> string \<Rightarrow> string" where
  "str_lower lib s = (if ascii s then lower s else unicode_lower lib s)"

text \<open>\<^verbatim>\<open>str.isspace\<close> on an ASCII character, and \<^verbatim>\<open>str.strip\<close>.\<close>

definition isspace :: "char \<Rightarrow> bool" where
  "isspace c = (c \<in> set [CHR 0x09, CHR 0x0A, CHR 0x0B, CHR 0x0C, CHR 0x0D,
                           CHR 0x1C, CHR 0x1D, CHR 0x1E, CHR 0x1F, CHR 0x20])"

definition strip :: "library \<Rightarrow> string \<Rightarrow> string" where
  "strip lib s =
     (if ascii s then rev (dropWhile isspace (rev (dropWhile isspace s)))
      else unicode_strip lib s)"

text \<open>
  SQL \<^verbatim>\<open>LIKE\<close>: in the pattern \<^verbatim>\<open>%\<close> stands for any run of characters and \<^verbatim>\<open>_\<close> for
  any one character, which in UTF-8 is a byte and the continuation bytes after it; every
  other byte stands for itself. The repository sets no escape character. Both operands
  reach \<^verbatim>\<open>LIKE\<close> lowered, so that SQLite's folding of ASCII letters changes nothing.
\<close>

function like :: "string \<Rightarrow> string \<Rightarrow> bool" where
  "like [] [] = True"
| "like [] (c # cs) = False"
| "like (p # ps) [] = (p = CHR ''%'' \<and> like ps [])"
| "like (p # ps) (c # cs) =
     (if p = CHR ''%'' then like ps (c # cs) \<or> like (p # ps) cs
      else if p = CHR ''_'' then like ps (dropWhile continuation cs)
      else p = c \<and> like ps cs)"
  by pat_completeness auto
termination
  by (relation "measure (\<lambda>(p, s). length p + length s)")
    (auto simp: less_Suc_eq_le intro: le_trans[OF length_dropWhile_le])

text \<open>\<^verbatim>\<open>func.lower(column).like(f"%{x.lower()}%")\<close> on a column value.\<close>

definition lower_like :: "library \<Rightarrow> string \<Rightarrow> string \<Rightarrow> bool" where
  "lower_like lib x col = like (CHR ''%'' # str_lower lib x @ [CHR ''%'']) (lower col)"

text \<open>On a nullable column: \<^verbatim>\<open>lower(NULL) LIKE p\<close> is NULL, which no \<^verbatim>\<open>OR\<close> turns true.\<close>

definition lower_like_null :: "library \<Rightarrow> string \<Rightarrow> string option \<Rightarrow> bool" where
  "lower_like_null lib x col = (case col of None \<Rightarrow> False | Some s \<Rightarrow> lower_like lib x s)"

subsection \<open>Data model\<close>

text \<open>
  A \<^verbatim>\<open>DateTime\<close> column comes back from SQLite as an offset-naive datetime, here the
  reading of the clock as a number. A datetime the caller supplies is offset-naive or
  offset-aware.
\<close>

type_synonym timestamp = int


text \<open>\<^verbatim>\<open>VendorBase\<close>; \<^verbatim>\<open>VendorCreate\<close> adds nothing to it.\<close>

record VendorBase =
  name :: string
  tax_id :: string
  address :: "string option"
  contact_email :: "string option"

type_synonym VendorCreate = VendorBase

text \<open>
  A row of the table \<^verbatim>\<open>vendors\<close>. \<^verbatim>\<open>name\<close> and \<^verbatim>\<open>tax_id\<close> are \<^verbatim>\<open>nullable=False\<close>,
  \<^verbatim>\<open>address\<close> and \<^verbatim>\<open>contact_email\<close> may be NULL. \<^verbatim>\<open>VendorRead\<close> has the same
  fields; rows enter the table only through \<^verbatim>\<open>VendorCreate\<close> and \<^verbatim>\<open>VendorUpdate\<close>,
  so \<^verbatim>\<open>VendorRead.model_validate\<close> reshapes a row without rejecting it.
\<close>

record Vendor = VendorBase +
  vendor_id :: int
  created_at :: timestamp
  updated_at :: timestamp

type_synonym VendorRead = Vendor

definition model_validate :: "Vendor \<Rightarrow> VendorRead" where
  "model_validate v = v"

text \<open>
  \<^verbatim>\<open>VendorUpdate\<close>: every field is optional, and pydantic remembers which fields the
  request set. \<open>Unset\<close> is a field the caller left out; \<open>Given None\<close> is an explicit
  null. \<^verbatim>\<open>model_dump(exclude_unset=True)\<close> keeps exactly the \<open>Given\<close> fields, so the record
  also stands for the dict handed to the repository.
\<close>

datatype 'a supplied = Unset | Given 'a

record VendorUpdate =
  upd_name :: "string option supplied"
  upd_tax_id :: "string option supplied"
  upd_address :: "string option supplied"
  upd_contact_email :: "string option supplied"

text \<open>Reading an attribute of the request: an unset field reads as its default, None.\<close>

fun attr :: "'a option supplied \<Rightarrow> 'a option" where
  "attr Unset = None"
| "attr (Given x) = x"

text \<open>Python's truth value of an \<^verbatim>\<open>Optional[str]\<close>: None and the empty string are false.\<close>

fun truthy :: "string option \<Rightarrow> bool" where
  "truthy None = False"
| "truthy (Some s) = (s \<noteq> [])"





subsection \<open>Session\<close>

text \<open>
  A repository is built on one \<^verbatim>\<open>AsyncSession\<close>, and nothing in the repository or the
  services commits or rolls back. The state is what one session holds: \<open>table\<close>, the rows
  its statements see, in storage order; \<open>committed\<close>, the rows a \<^verbatim>\<open>ROLLBACK\<close> brings back,
  that is the table without what the session itself has written; and \<open>inactive\<close>, set
  when a flush has failed. A failed flush rolls the transaction back, and from then on
  every statement of the session raises PendingRollbackError.
\<close>

record session =
  committed :: "Vendor list"
  table :: "Vendor list"
  inactive :: bool


definition unique_tax_id :: "session \<Rightarrow> bool" where
  "unique_tax_id s = distinct (map tax_id (table s))"

subsection \<open>Repository\<close>

text \<open>\<^verbatim>\<open>Result.scalar_one_or_none\<close>.\<close>

fun scalar_one_or_none :: "'a list \<Rightarrow> error + 'a option" where
  "scalar_one_or_none [] = Inr None"
| "scalar_one_or_none [x] = Inr (Some x)"
| "scalar_one_or_none (x # y # zs) = Inl MultipleResultsFound"

definition get_by_id :: "int \<Rightarrow> session \<Rightarrow> error + Vendor option" where
  "get_by_id i s =
     (if inactive s then Inl PendingRollbackError
      else scalar_one_or_none (filter (\<lambda>v. vendor_id v = i) (table s)))"

definition get_by_tax_id :: "string \<Rightarrow> session \<Rightarrow> error + Vendor option" where
  "get_by_tax_id t s =
     (if inactive s then Inl PendingRollbackError
      else scalar_one_or_none (filter (\<lambda>v. tax_id v = t) (table s)))"

definition get_all :: "session \<Rightarrow> error + Vendor list" where
  "get_all s = (if inactive s then Inl PendingRollbackError else Inr (table s))"

text \<open>
  The key an \<^verbatim>\<open>INTEGER PRIMARY KEY\<close> column receives on insert: one more than the
  largest key in the table, 1 in an empty table.
\<close>

definition next_id :: "Vendor list \<Rightarrow> int" where
  "next_id rows = (case map vendor_id rows of [] \<Rightarrow> 1 | i # js \<Rightarrow> fold max js i + 1)"

text \<open>
  \<^verbatim>\<open>create\<close>: \<^verbatim>\<open>add\<close>, \<^verbatim>\<open>flush\<close> and \<^verbatim>\<open>refresh\<close>. When the unique constraint
  \<^verbatim>\<open>uix_vendor_tax_id\<close> finds the tax id in the table, the insert of the flush fails with
  IntegrityError: the session rolls its transaction back, which drops the rows it has
  written, and turns inactive. Otherwise the row is appended with its key and both
  timestamps set from the clock (\<^verbatim>\<open>server_default=func.now()\<close>).
\<close>

definition create :: "timestamp \<Rightarrow> VendorBase \<Rightarrow> session \<Rightarrow> (error + Vendor) \<times> session" where
  "create now d s =
     (if inactive s then (Inl PendingRollbackError, s)
      else if \<exists>w \<in> set (table s). tax_id w = tax_id d then
        (Inl IntegrityError, s\<lparr>table := committed s, inactive := True\<rparr>)
      else
        let v = \<lparr>name = name d, tax_id = tax_id d, address = address d,
                 contact_email = contact_email d,
                 vendor_id = next_id (table s), created_at = now, updated_at = now\<rparr>
        in (Inr v, s\<lparr>table := table s @ [v]\<rparr>))"

text \<open>
  The \<^verbatim>\<open>SET\<close> clause of \<^verbatim>\<open>update(Vendor).values(**vendor_data)\<close> on one row: the given
  columns are assigned, \<^verbatim>\<open>updated_at\<close> is refreshed (\<^verbatim>\<open>onupdate=func.now()\<close>), every
  other column is left alone. A NULL for \<^verbatim>\<open>name\<close> or \<^verbatim>\<open>tax_id\<close> is refused by
  \<open>update\<close> before any row is written.
\<close>

definition set_values :: "timestamp \<Rightarrow> VendorUpdate \<Rightarrow> Vendor \<Rightarrow> Vendor" where
  "set_values now d v =
     v\<lparr>name := (case upd_name d of Given (Some x) \<Rightarrow> x | _ \<Rightarrow> name v),
       tax_id := (case upd_tax_id d of Given (Some x) \<Rightarrow> x | _ \<Rightarrow> tax_id v),
       address := (case upd_address d of Given x \<Rightarrow> x | Unset \<Rightarrow> address v),
       contact_email := (case upd_contact_email d of Given x \<Rightarrow> x | Unset \<Rightarrow> contact_email v),
       updated_at := now\<rparr>"

text \<open>
  \<^verbatim>\<open>update\<close>: one \<^verbatim>\<open>UPDATE ... RETURNING\<close> statement, run by \<^verbatim>\<open>execute\<close>. No row with
  the key gives None. The statement fails with IntegrityError when it would store NULL
  in a \<^verbatim>\<open>nullable=False\<close> column or leave two rows with one tax id; a failed statement
  writes nothing, and the transaction goes on. Otherwise the rows are written, and the
  returned rows go through \<^verbatim>\<open>scalar_one_or_none\<close>.
\<close>

definition update ::
  "timestamp \<Rightarrow> int \<Rightarrow> VendorUpdate \<Rightarrow> session \<Rightarrow> (error + Vendor option) \<times> session" where
  "update now i d s =
     (if inactive s then (Inl PendingRollbackError, s)
      else if \<not> (\<exists>v \<in> set (table s). vendor_id v = i) then (Inr None, s)
      else if upd_name d = Given None \<or> upd_tax_id d = Given None then (Inl IntegrityError, s)
      else
        let rows = map (\<lambda>v. if vendor_id v = i then set_values now d v else v) (table s)
        in if \<not> distinct (map tax_id rows) then (Inl IntegrityError, s)
           else (scalar_one_or_none (filter (\<lambda>v. vendor_id v = i) rows), s\<lparr>table := rows\<rparr>))"

definition delete :: "int \<Rightarrow> session \<Rightarrow> (error + bool) \<times> session" where
  "delete i s =
     (if inactive s then (Inl PendingRollbackError, s)
      else (Inr (\<exists>v \<in> set (table s). vendor_id v = i),
            s\<lparr>table := filter (\<lambda>v. vendor_id v \<noteq> i) (table s)\<rparr>))"

text \<open>
  \<^verbatim>\<open>search_vendors\<close>. Each filter that is neither None nor empty adds one condition;
  the conditions are joined with \<^verbatim>\<open>or_\<close>, and with no condition there is no
  \<^verbatim>\<open>WHERE\<close> clause.
\<close>

definition conditions ::
  "library \<Rightarrow> string option \<Rightarrow> string option \<Rightarrow> string option \<Rightarrow> string option
     \<Rightarrow> (Vendor \<Rightarrow> bool) list" where
  "conditions lib n t a e =
     (case n of Some x \<Rightarrow> if x \<noteq> [] then [\<lambda>v. lower_like lib x (name v)] else [] | None \<Rightarrow> [])
   @ (case t of Some x \<Rightarrow> if x \<noteq> [] then [\<lambda>v. lower_like lib x (tax_id v)] else [] | None \<Rightarrow> [])
   @ (case a of Some x \<Rightarrow> if x \<noteq> [] then [\<lambda>v. lower_like_null lib x (address v)] else []
      | None \<Rightarrow> [])
   @ (case e of Some x \<Rightarrow> if x \<noteq> [] then [\<lambda>v. lower_like_null lib x (contact_email v)] else []
      | None \<Rightarrow> [])"

definition selected :: "(Vendor \<Rightarrow> bool) list \<Rightarrow> Vendor list \<Rightarrow> Vendor list" where
  "selected conds rows =
     (if List.null conds then rows else filter (\<lambda>v. list_ex (\<lambda>c. c v) conds) rows)"

text \<open>
  \<^verbatim>\<open>OFFSET\<close> and \<^verbatim>\<open>LIMIT\<close> are bound as parameters of the statement. SQLite holds a
  signed 64-bit integer, and binding a Python integer outside that range raises
  OverflowError. Within it, a negative offset is zero and a negative limit is no limit.
\<close>

definition int64 :: "int \<Rightarrow> bool" where
  "int64 k = (- (2 ^ 63) \<le> k \<and> k \<le> 2 ^ 63 - 1)"

definition offset_limit :: "int \<Rightarrow> int \<Rightarrow> 'a list \<Rightarrow> error + 'a list" where
  "offset_limit off n xs =
     (if \<not> int64 off \<or> \<not> int64 n then Inl OverflowError
      else let ys = drop (nat off) xs in Inr (if n < 0 then ys else take (nat n) ys))"

text \<open>The count query runs first, then the query of the page.\<close>

definition search_vendors ::
  "library \<Rightarrow> string option \<Rightarrow> string option \<Rightarrow> string option \<Rightarrow> string option \<Rightarrow> int \<Rightarrow> int
     \<Rightarrow> session \<Rightarrow> error + Vendor list \<times> int" where
  "search_vendors lib n t a e pg ps s =
     (if inactive s then Inl PendingRollbackError
      else
        let conds = conditions lib n t a e;
            total_count = int (length (selected conds (table s)));
            offset = (pg - 1) * ps
        in case offset_limit offset ps (sort_key vendor_id (selected conds (table s))) of
             Inl err \<Rightarrow> Inl err
           | Inr vendors \<Rightarrow> Inr (vendors, total_count))"

subsection \<open>Vendor service\<close>

definition get_all_vendors :: "session \<Rightarrow> error + VendorRead list" where
  "get_all_vendors s =
     (case get_all s of Inl err \<Rightarrow> Inl err | Inr vendors \<Rightarrow> Inr (map model_validate vendors))"


text \<open>The detail of the duplicate condition: \<^verbatim>\<open>f"Vendor with tax ID '{tax_id}' already exists"\<close>.\<close>

definition duplicate_detail :: "string \<Rightarrow> string" where
  "duplicate_detail t = ''Vendor with tax ID '' @ [CHR 0x27] @ t @ [CHR 0x27] @ '' already exists''"

text \<open>
  \<^verbatim>\<open>create_vendor\<close> after its lookup: the entity is built from the four fields and handed
  to the repository; an IntegrityError of the storage becomes the duplicate condition.
  Other requests may run between the lookup and this part, at the \<^verbatim>\<open>await\<close>.
\<close>

definition create_vendor_store ::
  "timestamp \<Rightarrow> VendorCreate \<Rightarrow> session \<Rightarrow> (error + VendorRead) \<times> session" where
  "create_vendor_store now d s =
     (case create now d s of
        (Inl IntegrityError, s') \<Rightarrow> (Inl (HTTPException 400 (duplicate_detail (tax_id d))), s')
      | (Inl err, s') \<Rightarrow> (Inl err, s')
      | (Inr v, s') \<Rightarrow> (Inr (model_validate v), s'))"

definition create_vendor ::
  "timestamp \<Rightarrow> VendorCreate \<Rightarrow> session \<Rightarrow> (error + VendorRead) \<times> session" where
  "create_vendor now d s =
     (case get_by_tax_id (tax_id d) s of
        Inl err \<Rightarrow> (Inl err, s)
      | Inr (Some existing_vendor) \<Rightarrow>
          (Inl (HTTPException 400 (duplicate_detail (tax_id d))), s)
      | Inr None \<Rightarrow> create_vendor_store now d s)"

text \<open>
  The conflict check of \<^verbatim>\<open>update_vendor\<close>:
  \<^verbatim>\<open>if vendor_data.tax_id and vendor_data.tax_id != existing_vendor.tax_id\<close>, then the
  lookup and \<^verbatim>\<open>if conflict_vendor and conflict_vendor.id != vendor_id\<close>. The result is
  the exception raised, if any.
\<close>

definition tax_id_conflict :: "int \<Rightarrow> VendorUpdate \<Rightarrow> Vendor \<Rightarrow> session \<Rightarrow> error option" where
  "tax_id_conflict i d existing_vendor s =
     (case attr (upd_tax_id d) of
        None \<Rightarrow> None
      | Some t \<Rightarrow>
          if t \<noteq> [] \<and> t \<noteq> tax_id existing_vendor then
            (case get_by_tax_id t s of
               Inl err \<Rightarrow> Some err
             | Inr None \<Rightarrow> None
             | Inr (Some conflict_vendor) \<Rightarrow>
                 if vendor_id conflict_vendor \<noteq> i
                 then Some (HTTPException 400 (duplicate_detail t)) else None)
          else None)"

definition update_vendor ::
  "timestamp \<Rightarrow> int \<Rightarrow> VendorUpdate \<Rightarrow> session \<Rightarrow> (error + VendorRead option) \<times> session" where
  "update_vendor now i d s =
     (case get_by_id i s of
        Inl err \<Rightarrow> (Inl err, s)
      | Inr None \<Rightarrow> (Inr None, s)
      | Inr (Some existing_vendor) \<Rightarrow>
          (case tax_id_conflict i d existing_vendor s of
             Some err \<Rightarrow> (Inl err, s)
           | None \<Rightarrow>
               (case update now i d s of
                  (Inl err, s') \<Rightarrow> (Inl err, s')
                | (Inr None, s') \<Rightarrow> (Inr None, s')
                | (Inr (Some u), s') \<Rightarrow> (Inr (Some (model_validate u)), s'))))"

definition delete_vendor :: "int \<Rightarrow> session \<Rightarrow> (error + bool) \<times> session" where
  "delete_vendor i s = delete i s"

subsection \<open>CSV import\<close>

text \<open>
  What \<^verbatim>\<open>pd.read_csv\<close> hands over: a frame of named columns whose cells are either
  missing (NaN) or a scalar, kept by the text \<^verbatim>\<open>str()\<close> gives for it; or an exception,
  kept by its text.
\<close>

datatype cell = NaN | Scalar string

record DataFrame =
  columns :: "string list"
  rows :: "cell list list"

datatype upload = Unparseable string | Parsed DataFrame

fun str :: "cell \<Rightarrow> string" where
  "str NaN = ''nan''"
| "str (Scalar x) = x"

text \<open>\<^verbatim>\<open>row.get(key)\<close>: None when the row has no such label.\<close>

definition row_get :: "string list \<Rightarrow> cell list \<Rightarrow> string \<Rightarrow> cell option" where
  "row_get cols r k = map_of (zip cols r) k"

text \<open>\<^verbatim>\<open>row.get(key, '')\<close>.\<close>

definition row_get_default :: "string list \<Rightarrow> cell list \<Rightarrow> string \<Rightarrow> cell" where
  "row_get_default cols r k = (case row_get cols r k of None \<Rightarrow> Scalar [] | Some c \<Rightarrow> c)"

text \<open>\<^verbatim>\<open>pd.notna\<close> of what \<^verbatim>\<open>row.get(key)\<close> returns: false for None and for NaN.\<close>

fun notna :: "cell option \<Rightarrow> bool" where
  "notna None = False"
| "notna (Some NaN) = False"
| "notna (Some (Scalar x)) = True"

text \<open>
  The constructor \<^verbatim>\<open>VendorCreate(...)\<close> as the import calls it. The three text fields
  are accepted as they are; \<^verbatim>\<open>contact_email\<close> is an \<^verbatim>\<open>EmailStr\<close>.
\<close>

definition VendorCreate_init ::
  "library \<Rightarrow> string \<Rightarrow> string \<Rightarrow> string option \<Rightarrow> string option \<Rightarrow> error + VendorCreate" where
  "VendorCreate_init lib n t a e =
     (case e of
        None \<Rightarrow> Inr \<lparr>name = n, tax_id = t, address = a, contact_email = None\<rparr>
      | Some x \<Rightarrow>
          (case validate_email lib x of
             None \<Rightarrow> Inl (ValidationError [''contact_email''])
           | Some y \<Rightarrow> Inr \<lparr>name = n, tax_id = t, address = a, contact_email = Some y\<rparr>))"

text \<open>The text of a per-row error: a fixed message, or \<^verbatim>\<open>str(e)\<close> of a caught exception.\<close>

datatype message = Text string | StrOf error

record ImportError =
  row_number :: int
  field :: string
  error_msg :: message
  raw_data :: "(string \<times> cell) list"

record ImportResult =
  total_rows :: int
  success_count :: int
  error_count :: int
  errors :: "ImportError list"

text \<open>
  The \<^verbatim>\<open>vendor_data\<close> of a row: name and tax id are read with the default \<^verbatim>\<open>''\<close>,
  turned into text and stripped; address and email are None unless \<^verbatim>\<open>pd.notna\<close>.
\<close>

definition row_vendor_data :: "library \<Rightarrow> string list \<Rightarrow> cell list \<Rightarrow> error + VendorCreate" where
  "row_vendor_data lib cols r =
     VendorCreate_init lib
       (strip lib (str (row_get_default cols r ''name'')))
       (strip lib (str (row_get_default cols r ''tax_id'')))
       (if notna (row_get cols r ''address'')
        then Some (str (row_get_default cols r ''address'')) else None)
       (if notna (row_get cols r ''contact_email'')
        then Some (str (row_get_default cols r ''contact_email'')) else None)"

text \<open>
  The body of the loop of \<^verbatim>\<open>import_vendors_csv\<close> for the row at index \<open>idx\<close>: the error
  recorded for the row, if any, and the session after it. The \<^verbatim>\<open>except Exception\<close>
  clause turns every exception of the body into an error of field \<^verbatim>\<open>general\<close>.
\<close>

definition general_error :: "int \<Rightarrow> (string \<times> cell) list \<Rightarrow> error \<Rightarrow> ImportError" where
  "general_error row_num raw err =
     \<lparr>row_number = row_num, field = ''general'', error_msg = StrOf err, raw_data = raw\<rparr>"

definition import_row ::
  "library \<Rightarrow> timestamp \<Rightarrow> string list \<Rightarrow> int \<Rightarrow> cell list \<Rightarrow> session
     \<Rightarrow> ImportError option \<times> session" where
  "import_row lib now cols idx r s =
     (let row_num = idx + 2;
          raw = zip cols r
      in case row_vendor_data lib cols r of
           Inl err \<Rightarrow> (Some (general_error row_num raw err), s)
         | Inr vendor_data \<Rightarrow>
             if name vendor_data = [] then
               (Some \<lparr>row_number = row_num, field = ''name'',
                      error_msg = Text ''Name is required'', raw_data = raw\<rparr>, s)
             else if tax_id vendor_data = [] then
               (Some \<lparr>row_number = row_num, field = ''tax_id'',
                      error_msg = Text ''Tax ID is required'', raw_data = raw\<rparr>, s)
             else
               (case get_by_tax_id (tax_id vendor_data) s of
                  Inl err \<Rightarrow> (Some (general_error row_num raw err), s)
                | Inr (Some existing_vendor) \<Rightarrow>
                    (Some \<lparr>row_number = row_num, field = ''tax_id'',
                           error_msg = Text (duplicate_detail (tax_id vendor_data)),
                           raw_data = raw\<rparr>, s)
                | Inr None \<Rightarrow>
                    (case create_vendor now vendor_data s of
                       (Inl err, s') \<Rightarrow> (Some (general_error row_num raw err), s')
                     | (Inr v, s') \<Rightarrow> (None, s'))))"

text \<open>
  The loop over \<^verbatim>\<open>df.iterrows()\<close>, carrying the session, \<^verbatim>\<open>success_count\<close> and
  \<^verbatim>\<open>errors\<close>. \<open>clock idx\<close> is the time at which the row at index \<open>idx\<close> is written.
\<close>

fun import_rows ::
  "library \<Rightarrow> (int \<Rightarrow> timestamp) \<Rightarrow> string list \<Rightarrow> int \<Rightarrow> cell list list
     \<Rightarrow> session \<times> int \<times> ImportError list \<Rightarrow> session \<times> int \<times> ImportError list" where
  "import_rows lib clock cols idx [] acc = acc"
| "import_rows lib clock cols idx (r # rs) (s, ok, errs) =
     (case import_row lib (clock idx) cols idx r s of
        (Some err, s') \<Rightarrow> import_rows lib clock cols (idx + 1) rs (s', ok, errs @ [err])
      | (None, s') \<Rightarrow> import_rows lib clock cols (idx + 1) rs (s', ok + 1, errs))"

text \<open>\<^verbatim>\<open>', '.join\<close>.\<close>

fun join :: "string list \<Rightarrow> string" where
  "join [] = []"
| "join [x] = x"
| "join (x # y # zs) = x @ '', '' @ join (y # zs)"

text \<open>
  \<^verbatim>\<open>import_vendors_csv\<close>. The missing columns are listed here in a fixed order; Python
  iterates the set in an order of its own. The column names are ASCII.
\<close>

definition import_vendors_csv ::
  "library \<Rightarrow> (int \<Rightarrow> timestamp) \<Rightarrow> upload \<Rightarrow> session \<Rightarrow> (error + ImportResult) \<times> session" where
  "import_vendors_csv lib clock file s =
     (case file of
        Unparseable msg \<Rightarrow> (Inl (HTTPException 400 (''Invalid CSV file: '' @ msg)), s)
      | Parsed df \<Rightarrow>
          let missing_cols =
                filter (\<lambda>c. c \<notin> set (map (str_lower lib) (columns df)))
                  [''name'', ''tax_id'', ''address'', ''contact_email'']
          in if missing_cols \<noteq> [] then
               (Inl (HTTPException 400 (''Missing required columns: '' @ join missing_cols)), s)
             else
               (case import_rows lib clock (columns df) 0 (rows df) (s, 0, []) of
                  (s', ok, errs) \<Rightarrow>
                    (Inr \<lparr>total_rows = int (length (rows df)), success_count = ok,
                          error_count = int (length errs), errors = errs\<rparr>, s')))"

subsection \<open>Integration service\<close>

text \<open>
  \<^verbatim>\<open>IntegrationVendorRead\<close>: the fields of a vendor and \<^verbatim>\<open>status\<close>.
  \<^verbatim>\<open>VendorChange\<close> and \<^verbatim>\<open>VendorChangesResponse\<close>; the latter constrains
  \<^verbatim>\<open>page\<close> and \<^verbatim>\<open>page_size\<close> as \<^verbatim>\<open>VendorPaginationResponse\<close> does.
\<close>

record IntegrationVendorRead = Vendor +
  status :: string

record VendorChange =
  change_vendor_id :: int
  change_type :: string
  changed_fields :: "string list option"
  change_timestamp :: timestamp
  vendor_data :: IntegrationVendorRead



definition integration_vendor :: "VendorRead \<Rightarrow> IntegrationVendorRead" where
  "integration_vendor v =
     \<lparr>name = name v, tax_id = tax_id v, address = address v, contact_email = contact_email v,
      vendor_id = vendor_id v, created_at = created_at v, updated_at = updated_at v,
      status = ''active''\<rparr>"

definition get_vendors_for_integration :: "session \<Rightarrow> error + IntegrationVendorRead list" where
  "get_vendors_for_integration s =
     (case get_all_vendors s of
        Inl err \<Rightarrow> Inl err
      | Inr vendors \<Rightarrow> Inr (map integration_vendor vendors))"






subsection \<open>Webhook notifier\<close>

text \<open>
  The Python values a payload is made of, and which of them \<^verbatim>\<open>json.dumps\<close> can write: it
  raises TypeError on a datetime, wherever in the value it stands.
\<close>

datatype py =
    PyNone
  | PyBool bool
  | PyInt int
  | PyStr string
  | PyDatetime timestamp
  | PyList "py list"
  | PyDict "(string \<times> py) list"

fun serializable :: "py \<Rightarrow> bool" where
  "serializable (PyDatetime t) = False"
| "serializable (PyList xs) = (\<forall>x \<in> set xs. serializable x)"
| "serializable (PyDict kvs) = (\<forall>v \<in> snd ` set kvs. serializable v)"
| "serializable _ = True"

datatype WebhookEventType = VENDOR_CREATED | VENDOR_UPDATED | VENDOR_DELETED | VENDOR_IMPORTED

fun event_value :: "WebhookEventType \<Rightarrow> string" where
  "event_value VENDOR_CREATED = ''vendor.created''"
| "event_value VENDOR_UPDATED = ''vendor.updated''"
| "event_value VENDOR_DELETED = ''vendor.deleted''"
| "event_value VENDOR_IMPORTED = ''vendor.imported''"

text \<open>
  \<^verbatim>\<open>WebhookPayload(...).dict()\<close>: the fields as Python values. The event type is a
  \<^verbatim>\<open>str\<close> enum, written as its value; \<^verbatim>\<open>timestamp\<close> stays a datetime.
\<close>

definition webhook_payload_dict ::
  "WebhookEventType \<Rightarrow> string \<Rightarrow> timestamp \<Rightarrow> (string \<times> py) list \<Rightarrow> py" where
  "webhook_payload_dict event_type event_id now data =
     PyDict [(''event_type'', PyStr (event_value event_type)),
             (''event_id'', PyStr event_id),
             (''timestamp'', PyDatetime now),
             (''data'', PyDict data),
             (''source'', PyStr ''vendorgrid'')]"

text \<open>
  The state of the service is its configuration and whether the HTTP session has been
  created. What lies outside the program is an argument: the UUID drawn for the event,
  the time, whether \<^verbatim>\<open>aiohttp.ClientSession(...)\<close> succeeds when it is called, and what a
  request that is sent meets, an exception or a response with a status.

  \<^verbatim>\<open>session.post(url, json=...)\<close> writes the payload with \<^verbatim>\<open>json.dumps\<close> before it
  sends anything; that, like the rest of the request, happens inside the \<^verbatim>\<open>try\<close>, whose
  \<^verbatim>\<open>except Exception\<close> clause returns False.
\<close>

record IntegrationService =
  webhook_url :: "string option"
  webhook_timeout :: int
  webhook_session :: bool

datatype post_result = Raised | Responded int

definition send_webhook_notification ::
  "IntegrationService \<Rightarrow> WebhookEventType \<Rightarrow> (string \<times> py) list \<Rightarrow> string \<Rightarrow> timestamp \<Rightarrow> bool
     \<Rightarrow> post_result \<Rightarrow> bool \<times> IntegrationService" where
  "send_webhook_notification svc event_type data event_id now session_ok post =
     (if \<not> truthy (webhook_url svc) then (True, svc)
      else
        let payload = webhook_payload_dict event_type event_id now data
        in if \<not> webhook_session svc \<and> \<not> session_ok then (False, svc)
           else
             let svc' = svc\<lparr>webhook_session := True\<rparr>
             in if \<not> serializable payload then (False, svc')
                else case post of
                       Raised \<Rightarrow> (False, svc')
                     | Responded code \<Rightarrow>
                         (if code \<in> set [200, 201, 202] then (True, svc') else (False, svc')))"

subsection \<open>Sequences of operations\<close>

datatype operation =
    Create timestamp VendorCreate
  | Update timestamp int VendorUpdate
  | Import "int \<Rightarrow> timestamp" upload

fun apply_operation :: "library \<Rightarrow> operation \<Rightarrow> session \<Rightarrow> session" where
  "apply_operation lib (Create now d) s = snd (create_vendor now d s)"
| "apply_operation lib (Update now i d) s = snd (update_vendor now i d s)"
| "apply_operation lib (Import clock file) s = snd (import_vendors_csv lib clock file s)"

fun run :: "library \<Rightarrow> operation list \<Rightarrow> session \<Rightarrow> session" where
  "run lib [] s = s"
| "run lib (x # xs) s = run lib xs (apply_operation lib x s)"

subsection \<open>The words of the specification\<close>

text \<open>In the words of the specification: a status of the 2xx class.\<close>

definition is_2xx :: "int \<Rightarrow> bool" where
  "is_2xx code = (200 \<le> code \<and> code \<le> 299)"

text \<open>
  In the words of the specification: a filter matches a field as a case-insensitive
  substring; a vendor matches when no filter is supplied or some supplied filter matches
  its field.
\<close>

definition ci_substring :: "library \<Rightarrow> string \<Rightarrow> string \<Rightarrow> bool" where
  "ci_substring lib x y = sublist (str_lower lib x) (str_lower lib y)"










subsection \<open>Example data\<close>

text \<open>
  A session that has written nothing, and a library for examples whose texts are all
  ASCII, so that its functions for other text are not consulted.
\<close>

definition fresh :: "Vendor list \<Rightarrow> session" where
  "fresh vendors = \<lparr>committed = vendors, table = vendors, inactive = False\<rparr>"

definition plain :: library where
  "plain = \<lparr>unicode_lower = (\<lambda>x. x), unicode_strip = (\<lambda>x. x), validate_email = Some\<rparr>"

definition acme :: Vendor where
  "acme = \<lparr>name = ''Acme'', tax_id = ''T-1'', address = None, contact_email = None,
            vendor_id = 1, created_at = 0, updated_at = 0\<rparr>"

definition globex :: Vendor where
  "globex = \<lparr>name = ''Globex'', tax_id = ''T-2'', address = Some ''1 Main St'',
              contact_email = None, vendor_id = 2, created_at = 5, updated_at = 9\<rparr>"



definition hooked :: IntegrationService where
  "hooked = \<lparr>webhook_url = Some ''http://hook.example/in'', webhook_timeout = 30,
              webhook_session = False\<rparr>"

definition acme_data :: VendorCreate where
  "acme_data = \<lparr>name = ''Acme'', tax_id = ''T-1'', address = None, contact_email = None\<rparr>"

definition rival_data :: VendorCreate where
  "rival_data = \<lparr>name = ''Rival'', tax_id = ''T-1'', address = Some ''2 Side St'',
                  contact_email = None\<rparr>"

definition no_update :: VendorUpdate where
  "no_update = \<lparr>upd_name = Unset, upd_tax_id = Unset, upd_address = Unset,
                 upd_contact_email = Unset\<rparr>"

definition blank_data :: VendorCreate where
  "blank_data = \<lparr>name = ''Blank'', tax_id = [], address = None, contact_email = None\<rparr>"

definition blank :: Vendor where
  "blank = \<lparr>name = ''Blank'', tax_id = [], address = None, contact_email = None,
            vendor_id = 2, created_at = 3, updated_at = 3\<rparr>"




text \<open>The word \<^verbatim>\<open>ECOLE\<close> with an acute accent on its first letter, in capitals and in small letters.\<close>

definition ecole_upper :: string where
  "ecole_upper = [CHR 0xC3, CHR 0x89] @ ''COLE''"

definition ecole_lower :: string where
  "ecole_lower = [CHR 0xC3, CHR 0xA9] @ ''cole''"


section \<open>Properties\<close>

subsection \<open>Pagination of the search\<close>









subsection \<open>Empty filters\<close>

text \<open>
  Claim C10. In the repository search a filter given as the empty string is treated as
  an absent filter: for each of \<open>name\<close>, \<open>tax_id\<close>, \<open>address\<close> and \<open>contact_email\<close>, the
  search with the empty string returns the same rows and the same \<open>total_count\<close> as the
  search with that filter left out, whatever the other filters, the page and the table.
\<close>

theorem search_vendors_empty_filter:
  "search_vendors lib (Some []) t a e pg ps s = search_vendors lib None t a e pg ps s
 \<and> search_vendors lib n (Some []) a e pg ps s = search_vendors lib n None a e pg ps s
 \<and> search_vendors lib n t (Some []) e pg ps s = search_vendors lib n t None e pg ps s
 \<and> search_vendors lib n t a (Some []) pg ps s = search_vendors lib n t a None pg ps s"
  by (simp add: search_vendors_def conditions_def)

text \<open>With an empty name filter the tax id filter alone decides, and Acme is not found.\<close>

theorem search_vendors_empty_filter_witness:
  "search_vendors plain (Some []) (Some ''xyz'') None None 1 50 (fresh [acme]) = Inr ([], 0)
 \<and> search_vendors plain None (Some ''xyz'') None None 1 50 (fresh [acme]) = Inr ([], 0)"
proof -
  have "search_vendors plain None (Some ''xyz'') None None 1 50 (fresh [acme]) = Inr ([], 0)"
    by (simp add: search_vendors_def conditions_def selected_def offset_limit_def int64_def
        lower_like_def str_lower_def ascii_def lower_def lower_char_def acme_def fresh_def)
  then show ?thesis
    using search_vendors_empty_filter[of plain "Some ''xyz''" None None 1 50 "fresh [acme]"] by simp
qed

subsection \<open>The change feed\<close>








subsection \<open>The webhook notifier\<close>

text \<open>
  The payload always holds a datetime, so \<^verbatim>\<open>json.dumps\<close> always raises: with a URL
  configured the notifier returns False, whatever the receiver would answer; without
  one it returns True.
\<close>

lemma send_webhook_notification_result:
  "fst (send_webhook_notification svc ev data event_id now session_ok post) =
     (\<not> truthy (webhook_url svc))"
  by (simp add: send_webhook_notification_def webhook_payload_dict_def Let_def)

text \<open>
  Claim C9 at a service with a URL whose receiver answers 200, a status of the 2xx
  class: the claim asks for True, and \<open>send_webhook_notification\<close> returns False without
  sending the request.
\<close>

theorem webhook_payload_not_serializable:
  "is_2xx 200
 \<and> send_webhook_notification hooked VENDOR_DELETED [(''vendor_id'', PyInt 1)]
       ''8c0f6a52-5d0e-4a7c-9f0e-3b1d2c4e5f60'' 0 True (Responded 200) =
     (False, hooked\<lparr>webhook_session := True\<rparr>)"
  by (simp add: send_webhook_notification_def webhook_payload_dict_def hooked_def is_2xx_def)

subsection \<open>Uniqueness of the tax id\<close>

lemma scalar_none: "(\<And>v. v \<in> set xs \<Longrightarrow> \<not> P v) \<Longrightarrow> scalar_one_or_none (filter P xs) = Inr None"
  by (simp add: filter_False)

lemma scalar_SomeD: "scalar_one_or_none xs = Inr (Some x) \<Longrightarrow> xs = [x]"
  by (cases xs rule: scalar_one_or_none.cases) auto

lemma scalar_NoneD: "scalar_one_or_none xs = Inr None \<Longrightarrow> xs = []"
  by (cases xs rule: scalar_one_or_none.cases) auto

lemma scalar_error: "scalar_one_or_none xs = Inl err \<Longrightarrow> err = MultipleResultsFound"
  by (cases xs rule: scalar_one_or_none.cases) auto

lemma filter_key_single:
  "distinct (map f xs) \<Longrightarrow> v \<in> set xs \<Longrightarrow> filter (\<lambda>w. f w = f v) xs = [v]"
proof (induction xs)
  case Nil
  then show ?case by simp
next
  case (Cons x xs)
  show ?case
  proof (cases "x = v")
    case True
    with Cons.prems have "f v \<notin> f ` set xs" by simp
    then have "\<And>w. w \<in> set xs \<Longrightarrow> f w \<noteq> f v" by (metis imageI)
    then have "filter (\<lambda>w. f w = f v) xs = []" by (simp add: filter_empty_conv)
    with True show ?thesis by simp
  next
    case False
    with Cons.prems have v: "v \<in> set xs" and "f x \<noteq> f v" by auto
    with Cons show ?thesis by simp
  qed
qed

lemma get_by_tax_id_absent:
  "\<not> inactive s \<Longrightarrow> \<forall>v \<in> set (table s). tax_id v \<noteq> t \<Longrightarrow> get_by_tax_id t s = Inr None"
  unfolding get_by_tax_id_def by (simp add: filter_False)

lemma get_by_tax_id_present:
  "\<not> inactive s \<Longrightarrow> unique_tax_id s \<Longrightarrow> v \<in> set (table s)
     \<Longrightarrow> get_by_tax_id (tax_id v) s = Inr (Some v)"
  by (simp add: get_by_tax_id_def unique_tax_id_def filter_key_single)

lemma get_by_tax_id_SomeD:
  assumes "get_by_tax_id t s = Inr (Some v)"
  shows "v \<in> set (table s) \<and> tax_id v = t \<and> \<not> inactive s"
proof -
  from assms have a: "\<not> inactive s"
    by (auto simp: get_by_tax_id_def split: if_splits)
  with assms have "filter (\<lambda>w. tax_id w = t) (table s) = [v]"
    by (simp add: get_by_tax_id_def scalar_SomeD)
  then have "v \<in> set (filter (\<lambda>w. tax_id w = t) (table s))" by simp
  with a show ?thesis by simp
qed

lemma get_by_tax_id_NoneD:
  assumes "get_by_tax_id t s = Inr None"
  shows "(\<forall>v \<in> set (table s). tax_id v \<noteq> t) \<and> \<not> inactive s"
proof -
  from assms have a: "\<not> inactive s"
    by (auto simp: get_by_tax_id_def split: if_splits)
  with assms have "filter (\<lambda>w. tax_id w = t) (table s) = []"
    by (simp add: get_by_tax_id_def scalar_NoneD)
  with a show ?thesis by (auto simp: filter_empty_conv)
qed

lemma create_new:
  assumes "\<not> inactive s" "\<forall>v \<in> set (table s). tax_id v \<noteq> tax_id d"
  shows "create now d s =
     (let v = \<lparr>name = name d, tax_id = tax_id d, address = address d,
                 contact_email = contact_email d,
                 vendor_id = next_id (table s), created_at = now, updated_at = now\<rparr>
      in (Inr v, s\<lparr>table := table s @ [v]\<rparr>))"
  using assms by (simp add: create_def)

lemma create_vendor_new:
  assumes "\<not> inactive s" "\<forall>v \<in> set (table s). tax_id v \<noteq> tax_id d"
  shows "create_vendor now d s =
     (let v = \<lparr>name = name d, tax_id = tax_id d, address = address d,
                 contact_email = contact_email d,
                 vendor_id = next_id (table s), created_at = now, updated_at = now\<rparr>
      in (Inr v, s\<lparr>table := table s @ [v]\<rparr>))"
  using get_by_tax_id_absent[OF assms] create_new[OF assms, of now]
  by (simp add: create_vendor_def create_vendor_store_def Let_def model_validate_def)

text \<open>
  \<open>create_vendor\<close> leaves the session as it was or appends one row: after its lookup has
  found nothing, the insert cannot fail.
\<close>

lemma create_vendor_session:
  "snd (create_vendor now d s) = s
   \<or> (\<not> inactive s \<and> (\<forall>v \<in> set (table s). tax_id v \<noteq> tax_id d)
      \<and> snd (create_vendor now d s) =
          s\<lparr>table := table s @ [\<lparr>name = name d, tax_id = tax_id d, address = address d,
                 contact_email = contact_email d,
                 vendor_id = next_id (table s), created_at = now, updated_at = now\<rparr>]\<rparr>)"
proof (cases "get_by_tax_id (tax_id d) s")
  case (Inl err)
  then show ?thesis by (simp add: create_vendor_def)
next
  case (Inr res)
  show ?thesis
  proof (cases res)
    case None
    with Inr have "(\<forall>v \<in> set (table s). tax_id v \<noteq> tax_id d) \<and> \<not> inactive s"
      by (simp add: get_by_tax_id_NoneD)
    then show ?thesis
      using create_vendor_new[of s d now] by (simp add: Let_def)
  next
    case (Some v)
    with Inr show ?thesis by (simp add: create_vendor_def)
  qed
qed

lemma create_vendor_unique:
  "unique_tax_id s \<Longrightarrow> unique_tax_id (snd (create_vendor now d s))"
proof -
  assume u: "unique_tax_id s"
  from create_vendor_session[of now d s] show ?thesis
  proof
    assume "snd (create_vendor now d s) = s"
    with u show ?thesis by simp
  next
    assume new: "\<not> inactive s \<and> (\<forall>v \<in> set (table s). tax_id v \<noteq> tax_id d)
      \<and> snd (create_vendor now d s) =
          s\<lparr>table := table s @ [\<lparr>name = name d, tax_id = tax_id d, address = address d,
                 contact_email = contact_email d,
                 vendor_id = next_id (table s), created_at = now, updated_at = now\<rparr>]\<rparr>"
    then have "tax_id d \<notin> tax_id ` set (table s)" by (metis imageE)
    with u new show ?thesis by (simp add: unique_tax_id_def)
  qed
qed

lemma update_unique:
  "unique_tax_id s \<Longrightarrow> unique_tax_id (snd (update now i d s))"
  by (auto simp: update_def unique_tax_id_def Let_def)

lemma update_vendor_unique:
  "unique_tax_id s \<Longrightarrow> unique_tax_id (snd (update_vendor now i d s))"
  using update_unique[of s now i d]
  by (auto simp: update_vendor_def split: sum.splits option.splits prod.splits)

lemma import_row_session:
  "snd (import_row lib now cols idx r s) = s
   \<or> (\<exists>d. snd (import_row lib now cols idx r s) = snd (create_vendor now d s))"
proof (cases "row_vendor_data lib cols r")
  case (Inl err)
  then show ?thesis by (simp add: import_row_def Let_def)
next
  case (Inr d)
  show ?thesis
  proof (cases "name d = [] \<or> tax_id d = []")
    case True
    then show ?thesis using Inr by (auto simp: import_row_def Let_def)
  next
    case False
    show ?thesis
    proof (cases "get_by_tax_id (tax_id d) s")
      case (Inl err)
      then show ?thesis using Inr False by (simp add: import_row_def Let_def)
    next
      case found: (Inr res)
      show ?thesis
      proof (cases res)
        case None
        then have "snd (import_row lib now cols idx r s) = snd (create_vendor now d s)"
          using Inr False found by (simp add: import_row_def Let_def split: prod.splits sum.splits)
        then show ?thesis by blast
      next
        case (Some v)
        then show ?thesis using Inr False found by (simp add: import_row_def Let_def)
      qed
    qed
  qed
qed

lemma import_row_unique:
  "unique_tax_id s \<Longrightarrow> unique_tax_id (snd (import_row lib now cols idx r s))"
  using import_row_session[of lib now cols idx r s] create_vendor_unique[of s now]
  by auto

lemma import_rows_unique:
  "unique_tax_id (fst acc) \<Longrightarrow> unique_tax_id (fst (import_rows lib clock cols idx rs acc))"
proof (induction rs arbitrary: idx acc)
  case Nil
  then show ?case by simp
next
  case (Cons r rs)
  obtain s ok errs where acc: "acc = (s, ok, errs)" by (cases acc) auto
  with Cons.prems have "unique_tax_id (snd (import_row lib (clock idx) cols idx r s))"
    by (simp add: import_row_unique)
  then show ?case
    using Cons.IH by (auto simp: acc split: prod.splits option.splits)
qed

lemma import_vendors_csv_unique:
  "unique_tax_id s \<Longrightarrow> unique_tax_id (snd (import_vendors_csv lib clock up s))"
proof (cases up)
  case (Unparseable msg)
  assume "unique_tax_id s"
  then show ?thesis by (simp add: import_vendors_csv_def Unparseable)
next
  case (Parsed df)
  assume "unique_tax_id s"
  then have "unique_tax_id (fst (import_rows lib clock (columns df) 0 (rows df) (s, 0, [])))"
    by (simp add: import_rows_unique)
  with \<open>unique_tax_id s\<close> show ?thesis
    by (auto simp: import_vendors_csv_def Parsed Let_def split: prod.splits)
qed

lemma apply_operation_unique:
  "unique_tax_id s \<Longrightarrow> unique_tax_id (apply_operation lib x s)"
  by (cases x) (simp_all add: create_vendor_unique update_vendor_unique import_vendors_csv_unique)

text \<open>
  Claim C1. Tax id uniqueness is an invariant of the reachable states: from any table in
  which no two rows share a tax id, after any sequence of \<open>create_vendor\<close>,
  \<open>update_vendor\<close> and \<open>import_vendors_csv\<close> operations, whatever they return, no two
  rows share a tax id.
\<close>

theorem tax_id_unique_invariant: "unique_tax_id st \<Longrightarrow> unique_tax_id (run lib ops st)"
  by (induction ops arbitrary: st) (simp_all add: apply_operation_unique)

lemma create_vendor_acme:
  "create_vendor 0 acme_data (fresh []) = (Inr acme, (fresh [])\<lparr>table := [acme]\<rparr>)"
  by (simp add: create_vendor_def create_vendor_store_def create_def get_by_tax_id_def
      next_id_def acme_def acme_data_def model_validate_def Let_def fresh_def)

lemma create_vendor_rival:
  "create_vendor 1 rival_data ((fresh [])\<lparr>table := [acme]\<rparr>) =
     (Inl (HTTPException 400 (duplicate_detail ''T-1'')), (fresh [])\<lparr>table := [acme]\<rparr>)"
  by (simp add: create_vendor_def get_by_tax_id_def acme_def rival_data_def fresh_def)

text \<open>Two creates with one tax id, on the empty table: one row remains.\<close>

theorem tax_id_unique_invariant_witness:
  "unique_tax_id (fresh [])
 \<and> unique_tax_id (run plain [Create 0 acme_data, Create 1 rival_data] (fresh []))
 \<and> table (run plain [Create 0 acme_data, Create 1 rival_data] (fresh [])) = [acme]"
  using tax_id_unique_invariant[of "fresh []" plain "[Create 0 acme_data, Create 1 rival_data]"]
  by (simp add: unique_tax_id_def create_vendor_acme create_vendor_rival) (simp add: fresh_def)

subsection \<open>Duplicates on create\<close>




subsection \<open>Partial update\<close>

lemma vendor_id_set_values: "vendor_id (set_values now d v) = vendor_id v"
  by (simp add: set_values_def)

lemma filter_id_map_set_values:
  "filter (\<lambda>v. vendor_id v = i) (map (\<lambda>v. if vendor_id v = i then set_values now d v else v) xs)
     = map (set_values now d) (filter (\<lambda>v. vendor_id v = i) xs)"
  by (induction xs) (simp_all add: vendor_id_set_values)

lemma get_by_id_SomeD:
  assumes "get_by_id i s = Inr (Some v)"
  shows "filter (\<lambda>w. vendor_id w = i) (table s) = [v]" and "\<not> inactive s"
proof -
  from assms show a: "\<not> inactive s"
    by (auto simp: get_by_id_def split: if_splits)
  with assms show "filter (\<lambda>w. vendor_id w = i) (table s) = [v]"
    by (simp add: get_by_id_def scalar_SomeD)
qed

lemma update_SomeD:
  assumes "update now i d s = (Inr (Some u), s')"
      and old: "filter (\<lambda>w. vendor_id w = i) (table s) = [old]"
  shows "u = set_values now d old"
    and "s' = s\<lparr>table := map (\<lambda>v. if vendor_id v = i then u else v) (table s)\<rparr>"
    and "upd_name d \<noteq> Given None" and "upd_tax_id d \<noteq> Given None"
proof -
  let ?rows = "map (\<lambda>v. if vendor_id v = i then set_values now d v else v) (table s)"
  from assms(1) have nn: "upd_name d \<noteq> Given None \<and> upd_tax_id d \<noteq> Given None"
    and s': "s' = s\<lparr>table := ?rows\<rparr>"
    and sc: "scalar_one_or_none (filter (\<lambda>v. vendor_id v = i) ?rows) = Inr (Some u)"
    by (auto simp: update_def Let_def split: if_splits)
  from sc show u: "u = set_values now d old"
    by (simp add: filter_id_map_set_values old)
  have "\<And>v. v \<in> set (table s) \<Longrightarrow> vendor_id v = i \<Longrightarrow> v = old"
  proof -
    fix v assume "v \<in> set (table s)" "vendor_id v = i"
    then have "v \<in> set (filter (\<lambda>w. vendor_id w = i) (table s))" by simp
    then show "v = old" by (simp add: old)
  qed
  then have "?rows = map (\<lambda>v. if vendor_id v = i then u else v) (table s)"
    unfolding u by (intro map_cong) auto
  with s' show "s' = s\<lparr>table := map (\<lambda>v. if vendor_id v = i then u else v) (table s)\<rparr>"
    by simp
  from nn show "upd_name d \<noteq> Given None" "upd_tax_id d \<noteq> Given None" by simp_all
qed

lemma update_vendor_SomeD:
  assumes "update_vendor now i d s = (Inr (Some r), s')"
  shows "\<exists>old. get_by_id i s = Inr (Some old) \<and> update now i d s = (Inr (Some r), s')"
proof (cases "get_by_id i s")
  case (Inl err)
  with assms show ?thesis by (simp add: update_vendor_def)
next
  case (Inr res)
  show ?thesis
  proof (cases res)
    case None
    with assms Inr show ?thesis by (simp add: update_vendor_def)
  next
    case (Some old)
    with assms Inr show ?thesis
      by (auto simp: update_vendor_def model_validate_def split: option.splits prod.splits sum.splits)
  qed
qed

text \<open>
  Claim C4. When \<open>update_vendor\<close> succeeds on an existing vendor, the session differs
  from the old one in that vendor's row only, and in that row every field the request
  left unset keeps its old value, every field the request set has the given value, the
  key and \<open>created_at\<close> are kept, and \<open>updated_at\<close> is the time of the update.
\<close>

theorem update_vendor_frame:
  assumes "update_vendor now i d st = (Inr (Some r), st')"
  shows "\<exists>old. get_by_id i st = Inr (Some old)
       \<and> st' = st\<lparr>table := map (\<lambda>v. if vendor_id v = i then r else v) (table st)\<rparr>
       \<and> vendor_id r = i \<and> created_at r = created_at old \<and> updated_at r = now
       \<and> (upd_name d = Unset \<longrightarrow> name r = name old)
       \<and> (upd_tax_id d = Unset \<longrightarrow> tax_id r = tax_id old)
       \<and> (upd_address d = Unset \<longrightarrow> address r = address old)
       \<and> (upd_contact_email d = Unset \<longrightarrow> contact_email r = contact_email old)
       \<and> (\<forall>x. upd_name d = Given x \<longrightarrow> x = Some (name r))
       \<and> (\<forall>x. upd_tax_id d = Given x \<longrightarrow> x = Some (tax_id r))
       \<and> (\<forall>x. upd_address d = Given x \<longrightarrow> address r = x)
       \<and> (\<forall>x. upd_contact_email d = Given x \<longrightarrow> contact_email r = x)"
proof -
  from update_vendor_SomeD[OF assms] obtain old where
    g: "get_by_id i st = Inr (Some old)" and u: "update now i d st = (Inr (Some r), st')"
    by blast
  note f = get_by_id_SomeD(1)[OF g]
  note facts = update_SomeD[OF u f]
  from f have "old \<in> set (filter (\<lambda>w. vendor_id w = i) (table st))" by simp
  then have oid: "vendor_id old = i" by simp
  have nm: "\<And>x. upd_name d = Given x \<Longrightarrow> x = Some (name r)"
    using facts(3) by (auto simp: facts(1) set_values_def split: option.splits)
  have tx: "\<And>x. upd_tax_id d = Given x \<Longrightarrow> x = Some (tax_id r)"
    using facts(4) by (auto simp: facts(1) set_values_def split: option.splits)
  show ?thesis
    using g facts(2) oid nm tx
    by (intro exI[of _ old]) (simp add: facts(1) set_values_def)
qed

theorem update_vendor_frame_witness:
  "update_vendor 12 2 (no_update\<lparr>upd_address := Given (Some ''9 New Rd'')\<rparr>) (fresh [acme, globex])
     = (Inr (Some (globex\<lparr>address := Some ''9 New Rd'', updated_at := 12\<rparr>)),
        (fresh [acme, globex])
          \<lparr>table := [acme, globex\<lparr>address := Some ''9 New Rd'', updated_at := 12\<rparr>]\<rparr>)
 \<and> name (globex\<lparr>address := Some ''9 New Rd'', updated_at := 12\<rparr>) = name globex
 \<and> updated_at (globex\<lparr>address := Some ''9 New Rd'', updated_at := 12\<rparr>) \<noteq> updated_at globex"
proof -
  have e: "update_vendor 12 2 (no_update\<lparr>upd_address := Given (Some ''9 New Rd'')\<rparr>)
             (fresh [acme, globex])
     = (Inr (Some (globex\<lparr>address := Some ''9 New Rd'', updated_at := 12\<rparr>)),
        (fresh [acme, globex])
          \<lparr>table := [acme, globex\<lparr>address := Some ''9 New Rd'', updated_at := 12\<rparr>]\<rparr>)"
    by (simp add: update_vendor_def get_by_id_def tax_id_conflict_def update_def set_values_def
        no_update_def acme_def globex_def model_validate_def Let_def fresh_def)
  show ?thesis using e update_vendor_frame[OF e] by (simp add: globex_def)
qed

subsection \<open>Duplicates on update\<close>

text \<open>
  Claim C3 at a table the service can produce: a vendor whose tax id is the empty
  string is created, and another vendor's tax id is then updated to the empty string.
  The check of \<open>update_vendor\<close> is skipped, the empty string being false, and the
  constraint of the storage raises IntegrityError, which \<open>update_vendor\<close> does not
  turn into the duplicate condition.
\<close>

theorem update_vendor_empty_tax_id:
  "create_vendor 3 blank_data (fresh [acme]) =
     (Inr blank, (fresh [acme])\<lparr>table := [acme, blank]\<rparr>)
 \<and> update_vendor 7 1 (no_update\<lparr>upd_tax_id := Given (Some [])\<rparr>)
       ((fresh [acme])\<lparr>table := [acme, blank]\<rparr>) =
     (Inl IntegrityError, (fresh [acme])\<lparr>table := [acme, blank]\<rparr>)"
  by (simp add: create_vendor_def create_vendor_store_def create_def get_by_tax_id_def
      next_id_def acme_def blank_def blank_data_def model_validate_def Let_def
      update_vendor_def get_by_id_def tax_id_conflict_def update_def set_values_def
      no_update_def fresh_def)

text \<open>
  Apart from the empty string the check is as strict as it should be. On a usable
  session with unique tax ids, a non-empty tax id that differs from the vendor's own and
  belongs to another vendor gives the duplicate condition and leaves the session as it
  was; \<open>update_vendor\<close> raises an HTTPException in no other case; and an update of the
  tax id to the vendor's own value succeeds.
\<close>

lemma update_vendor_conflict:
  assumes u: "\<not> inactive s" "unique_tax_id s"
    and a: "get_by_id i s = Inr (Some a)"
    and t: "upd_tax_id d = Given (Some t)" "t \<noteq> []" "t \<noteq> tax_id a"
    and b: "b \<in> set (table s)" "vendor_id b \<noteq> i" "tax_id b = t"
  shows "update_vendor now i d s = (Inl (HTTPException 400 (duplicate_detail t)), s)"
  using a t b get_by_tax_id_present[OF u b(1)]
  by (simp add: update_vendor_def tax_id_conflict_def)

lemma update_error:
  "update now i d s = (Inl err, s') \<Longrightarrow>
     err = IntegrityError \<or> err = MultipleResultsFound \<or> err = PendingRollbackError"
  by (auto simp: update_def Let_def split: if_splits dest: scalar_error)

lemma lookup_error:
  "get_by_tax_id t s = Inl err \<Longrightarrow> err = MultipleResultsFound \<or> err = PendingRollbackError"
  "get_by_id i s = Inl err \<Longrightarrow> err = MultipleResultsFound \<or> err = PendingRollbackError"
  by (auto simp: get_by_tax_id_def get_by_id_def split: if_splits dest: scalar_error)

lemma tax_id_conflict_duplicate:
  assumes "tax_id_conflict i d a s = Some (HTTPException c m)"
  shows "\<exists>t b. upd_tax_id d = Given (Some t) \<and> t \<noteq> [] \<and> t \<noteq> tax_id a
          \<and> b \<in> set (table s) \<and> vendor_id b \<noteq> i \<and> tax_id b = t
          \<and> c = 400 \<and> m = duplicate_detail t"
proof (cases "upd_tax_id d")
  case Unset
  with assms show ?thesis by (simp add: tax_id_conflict_def)
next
  case (Given x)
  show ?thesis
  proof (cases x)
    case None
    with assms Given show ?thesis by (simp add: tax_id_conflict_def)
  next
    case (Some t)
    show ?thesis
    proof (cases "get_by_tax_id t s")
      case (Inl err)
      with assms Given Some have "err = HTTPException c m"
        by (simp add: tax_id_conflict_def split: if_splits)
      with lookup_error(1)[OF Inl] show ?thesis by auto
    next
      case (Inr res)
      show ?thesis
      proof (cases res)
        case None
        with assms Given Some Inr show ?thesis by (simp add: tax_id_conflict_def split: if_splits)
      next
        case found: (Some b)
        from Inr found have "b \<in> set (table s) \<and> tax_id b = t" by (simp add: get_by_tax_id_SomeD)
        with assms Given Some Inr found show ?thesis
          by (auto simp: tax_id_conflict_def split: if_splits)
      qed
    qed
  qed
qed

lemma update_vendor_duplicate_only:
  assumes "update_vendor now i d s = (Inl (HTTPException c m), s')"
  shows "\<exists>a t b. get_by_id i s = Inr (Some a) \<and> upd_tax_id d = Given (Some t) \<and> t \<noteq> []
          \<and> t \<noteq> tax_id a \<and> b \<in> set (table s) \<and> vendor_id b \<noteq> i \<and> tax_id b = t
          \<and> c = 400 \<and> m = duplicate_detail t \<and> s' = s"
proof (cases "get_by_id i s")
  case (Inl err)
  with assms lookup_error(2)[OF Inl] show ?thesis by (auto simp: update_vendor_def)
next
  case (Inr res)
  show ?thesis
  proof (cases res)
    case None
    with assms Inr show ?thesis by (simp add: update_vendor_def)
  next
    case (Some a)
    show ?thesis
    proof (cases "tax_id_conflict i d a s")
      case None
      obtain r s2 where up: "update now i d s = (r, s2)" by (cases "update now i d s")
      with assms Inr Some None have "r = Inl (HTTPException c m)"
        by (auto simp: update_vendor_def split: sum.splits option.splits)
      with up update_error[of now i d s "HTTPException c m" s2] show ?thesis by simp
    next
      case conflict: (Some err)
      with assms Inr Some have "err = HTTPException c m" "s' = s"
        by (simp_all add: update_vendor_def)
      with conflict tax_id_conflict_duplicate[of i d a s c m] Inr Some show ?thesis by auto
    qed
  qed
qed

lemma update_vendor_own_tax_id:
  assumes u: "unique_tax_id s" and a: "get_by_id i s = Inr (Some a)"
  shows "update_vendor now i (no_update\<lparr>upd_tax_id := Given (Some (tax_id a))\<rparr>) s =
     (Inr (Some (a\<lparr>updated_at := now\<rparr>)),
      s\<lparr>table := map (\<lambda>v. if vendor_id v = i then a\<lparr>updated_at := now\<rparr> else v) (table s)\<rparr>)"
proof -
  let ?d = "no_update\<lparr>upd_tax_id := Given (Some (tax_id a))\<rparr>"
  let ?rows = "map (\<lambda>v. if vendor_id v = i then set_values now ?d v else v) (table s)"
  note f = get_by_id_SomeD(1)[OF a] and act = get_by_id_SomeD(2)[OF a]
  then have "a \<in> set (filter (\<lambda>w. vendor_id w = i) (table s))" by simp
  then have ain: "a \<in> set (table s)" "vendor_id a = i" by simp_all
  have only: "\<And>v. v \<in> set (table s) \<Longrightarrow> vendor_id v = i \<Longrightarrow> v = a"
  proof -
    fix v assume "v \<in> set (table s)" "vendor_id v = i"
    then have "v \<in> set (filter (\<lambda>w. vendor_id w = i) (table s))" by simp
    then show "v = a" by (simp add: f)
  qed
  have sv: "set_values now ?d a = a\<lparr>updated_at := now\<rparr>"
    by (simp add: set_values_def no_update_def)
  have rows: "?rows = map (\<lambda>v. if vendor_id v = i then a\<lparr>updated_at := now\<rparr> else v) (table s)"
    using only sv by (intro map_cong) auto
  have "tax_id (if vendor_id v = i then set_values now ?d v else v) = tax_id v"
    if "v \<in> set (table s)" for v
    using only[OF that] sv by auto
  then have mt: "map tax_id ?rows = map tax_id (table s)"
    unfolding map_map by (intro map_cong) (auto simp: comp_def)
  have dist: "distinct (map tax_id ?rows)"
    using u by (simp only: mt unique_tax_id_def)
  have sc: "scalar_one_or_none (filter (\<lambda>v. vendor_id v = i) ?rows) =
              Inr (Some (a\<lparr>updated_at := now\<rparr>))"
    by (simp only: filter_id_map_set_values f) (simp add: sv)
  have "update now i ?d s = (Inr (Some (a\<lparr>updated_at := now\<rparr>)), s\<lparr>table := ?rows\<rparr>)"
    using ain dist sc act unfolding update_def Let_def by (auto simp: no_update_def)
  then show ?thesis
    using a unfolding rows by (simp add: update_vendor_def tax_id_conflict_def model_validate_def)
qed

subsection \<open>Duplicates within one import\<close>








subsection \<open>Matching in the search\<close>
















text \<open>
  The pattern of \<^verbatim>\<open>LIKE\<close> is built from the filter as it is: the filter \<^verbatim>\<open>_\<close> matches
  Acme, whose name has no underscore. And the filter is lowered by Python, the column
  by the storage: when Python lowers the accented capital, the word in capitals is not
  found under its own name.
\<close>

lemma like_underscore:
  "lower_like plain ''_'' ''Acme'' \<and> \<not> ci_substring plain ''_'' ''Acme''"
  by (simp add: lower_like_def ci_substring_def str_lower_def ascii_def lower_def lower_char_def
      sublist_Cons_right)

lemma like_non_ascii:
  assumes "unicode_lower lib ecole_upper = ecole_lower"
  shows "\<not> lower_like lib ecole_upper ecole_upper \<and> ci_substring lib ecole_upper ecole_upper"
proof -
  have "\<not> ascii ecole_upper" by (simp add: ecole_upper_def ascii_def)
  then have "str_lower lib ecole_upper = ecole_lower"
    using assms by (simp add: str_lower_def)
  then show ?thesis
    by (simp add: lower_like_def ci_substring_def)
      (simp add: ecole_upper_def ecole_lower_def lower_def lower_char_def)
qed



end
